theory Spec2Isabelle
  imports Complex_Main
begin

section \<open>Neon Lane: the frame loop of \<^verbatim>\<open>src/App.tsx\<close>\<close>

text \<open>
  The game is one React component. Its simulation state lives in refs (mutable cells),
  its UI state (\<^verbatim>\<open>running\<close>, \<^verbatim>\<open>playerLane\<close>, \<^verbatim>\<open>score\<close>,
  \<^verbatim>\<open>best\<close>) in \<^verbatim>\<open>useState\<close> cells. JavaScript numbers are modelled as
  ideal numbers: positions, times and speeds as \<open>real\<close>, lanes and scores as \<open>int\<close>;
  the rounding of IEEE doubles is not modelled. The one non-number value a number
  variable of this program can hold, \<^verbatim>\<open>NaN\<close> from \<^verbatim>\<open>parseInt\<close>, is kept.
\<close>

subsection \<open>Constants\<close>

definition CANVAS_W :: real where "CANVAS_W = 360"
definition CANVAS_H :: real where "CANVAS_H = 640"
definition LANES :: int where "LANES = 3"
definition PLAYER_R :: real where "PLAYER_R = 14"
definition PLAYER_Y :: real where "PLAYER_Y = CANVAS_H - 80"
definition BASE_SPEED :: real where "BASE_SPEED = 140"
definition SPEED_GROWTH :: real where "SPEED_GROWTH = 6"
definition BASE_SPAWN :: real where "BASE_SPAWN = 1.0"
definition MIN_SPAWN :: real where "MIN_SPAWN = 0.35"
definition SPAWN_DECAY :: real where "SPAWN_DECAY = 0.04"

lemmas consts_defs =
  CANVAS_W_def CANVAS_H_def LANES_def PLAYER_R_def PLAYER_Y_def BASE_SPEED_def
  SPEED_GROWTH_def BASE_SPAWN_def MIN_SPAWN_def SPAWN_DECAY_def

subsection \<open>Data\<close>

record Obstacle =
  lane :: int
  y :: real
  w :: real
  h :: real
  passed :: bool

text \<open>A number that may be \<^verbatim>\<open>NaN\<close>: the type of \<^verbatim>\<open>best\<close>.\<close>

datatype jsnum = Num int | NaN

text \<open>
  The four \<^verbatim>\<open>useState\<close> values. A value of this type is used in two roles: as the
  store React keeps (changed by the setters), and as the bindings a closure of one
  render reads (\<^verbatim>\<open>const [running, setRunning] = useState(true)\<close> binds constants, so
  \<^verbatim>\<open>loop\<close>, \<^verbatim>\<open>draw\<close> and \<^verbatim>\<open>restart\<close> read the values of the render that created
  them, and a setter called inside them does not change what they read).
\<close>

record UI =
  running :: bool
  playerLane :: int
  score :: int
  best :: jsnum

datatype Overlay = NoOverlay | GameOver | Paused

text \<open>What one call of \<^verbatim>\<open>draw\<close> paints.\<close>

record Scene =
  laneGuide :: "bool list"
  playerX :: real
  rects :: "(real \<times> real \<times> real \<times> real) list"
  scoreText :: string
  bestText :: string
  overlay :: Overlay

text \<open>
  Everything the component's functions read or write. \<open>canvas\<close> says whether
  \<^verbatim>\<open>canvasRef.current\<close> is set; \<open>loop_last\<close> is the \<^verbatim>\<open>_last\<close> property stashed on
  the loop function; \<open>rafQueue\<close> holds the pending animation-frame requests, each with
  its handle and the bindings of the loop closure that was registered; \<open>painted\<close> is the
  log of frames drawn, oldest first.
\<close>

record World =
  canvas :: bool
  rafRef :: "nat option"
  obstaclesRef :: "Obstacle list"
  speedRef :: real
  spawnTimerRef :: real
  spawnIntervalRef :: real
  elapsedRef :: real
  deadRef :: bool
  loop_last :: "real option"
  state :: UI
  localStorage :: "string \<rightharpoonup> string"
  rafNext :: nat
  rafQueue :: "(nat \<times> UI) list"
  painted :: "Scene list"

subsection \<open>Library functions of the host\<close>

definition Math_max :: "jsnum \<Rightarrow> jsnum \<Rightarrow> jsnum" where
  "Math_max a b = (case (a, b) of (Num m, Num n) \<Rightarrow> Num (max m n) | _ \<Rightarrow> NaN)"

definition digitChar :: "nat \<Rightarrow> char" where
  "digitChar d = ''0123456789'' ! d"

fun digits10 :: "nat \<Rightarrow> string" where
  "digits10 n = (if n < 10 then [digitChar n] else digits10 (n div 10) @ [digitChar (n mod 10)])"

declare digits10.simps [simp del]

text \<open>
  \<^verbatim>\<open>String(n)\<close> for an integer or \<^verbatim>\<open>NaN\<close>. Integers are ideal: the exponent
  notation JavaScript prints from \<open>10\<^sup>2\<^sup>1\<close> on is not modelled.
\<close>

definition js_String :: "jsnum \<Rightarrow> string" where
  "js_String v = (case v of
       NaN \<Rightarrow> ''NaN''
     | Num n \<Rightarrow> if n < 0 then CHR ''-'' # digits10 (nat (- n)) else digits10 (nat n))"

definition isWhite :: "char \<Rightarrow> bool" where
  "isWhite ch = (ch \<in> set [CHR 0x09, CHR 0x0A, CHR 0x0B, CHR 0x0C, CHR 0x0D, CHR '' ''])"

definition digitValue :: "char \<Rightarrow> nat option" where
  "digitValue = map_of
     [(CHR ''0'', 0), (CHR ''1'', 1), (CHR ''2'', 2), (CHR ''3'', 3), (CHR ''4'', 4),
      (CHR ''5'', 5), (CHR ''6'', 6), (CHR ''7'', 7), (CHR ''8'', 8), (CHR ''9'', 9),
      (CHR ''a'', 10), (CHR ''b'', 11), (CHR ''c'', 12), (CHR ''d'', 13), (CHR ''e'', 14),
      (CHR ''f'', 15), (CHR ''A'', 10), (CHR ''B'', 11), (CHR ''C'', 12), (CHR ''D'', 13),
      (CHR ''E'', 14), (CHR ''F'', 15)]"

definition isDigitIn :: "nat \<Rightarrow> char \<Rightarrow> bool" where
  "isDigitIn radix ch = (case digitValue ch of None \<Rightarrow> False | Some d \<Rightarrow> d < radix)"

definition digitsValue :: "nat \<Rightarrow> string \<Rightarrow> nat" where
  "digitsValue radix ds = foldl (\<lambda>a ch. a * radix + the (digitValue ch)) 0 ds"

text \<open>
  \<^verbatim>\<open>parseInt(v)\<close> with no radix argument: leading white space is skipped, a sign is
  read, a \<^verbatim>\<open>0x\<close> prefix selects base 16, the longest prefix of digits is the value, and
  a string with no digit there gives \<^verbatim>\<open>NaN\<close>. (White space outside ASCII is not
  modelled.)
\<close>

definition parseInt :: "string \<Rightarrow> jsnum" where
  "parseInt v =
     (let t = dropWhile isWhite v;
          neg = (take 1 t = ''-'');
          t = (if take 1 t = ''-'' \<or> take 1 t = ''+'' then drop 1 t else t);
          hex = (take 2 t = ''0x'' \<or> take 2 t = ''0X'');
          radix = (if hex then 16 else 10);
          t = (if hex then drop 2 t else t);
          ds = takeWhile (isDigitIn radix) t
      in if ds = [] then NaN
         else Num ((if neg then - 1 else 1) * int (digitsValue radix ds)))"

definition lowerChar :: "char \<Rightarrow> char" where
  "lowerChar ch = (case map_of (zip ''ABCDEFGHIJKLMNOPQRSTUVWXYZ'' ''abcdefghijklmnopqrstuvwxyz'') ch of
       None \<Rightarrow> ch | Some l \<Rightarrow> l)"

text \<open>\<^verbatim>\<open>toLowerCase\<close> on ASCII letters.\<close>

definition toLowerCase :: "string \<Rightarrow> string" where
  "toLowerCase k = map lowerChar k"

text \<open>
  \<^verbatim>\<open>requestAnimationFrame(loop)\<close> called from a closure with bindings \<open>c\<close>: the request
  is queued under a fresh handle, which is returned.
\<close>

definition requestAnimationFrame :: "UI \<Rightarrow> World \<Rightarrow> nat \<times> World" where
  "requestAnimationFrame c s =
     (rafNext s, s\<lparr>rafQueue := rafQueue s @ [(rafNext s, c)], rafNext := rafNext s + 1\<rparr>)"

definition cancelAnimationFrame :: "nat \<Rightarrow> World \<Rightarrow> World" where
  "cancelAnimationFrame i s = s\<lparr>rafQueue := filter (\<lambda>q. fst q \<noteq> i) (rafQueue s)\<rparr>"

subsection \<open>Helpers of the component\<close>

definition laneX :: "int \<Rightarrow> real" where
  "laneX l = (let laneWidth = CANVAS_W / real_of_int LANES
              in laneWidth * real_of_int l + laneWidth / 2)"

definition clamp :: "int \<Rightarrow> int \<Rightarrow> int \<Rightarrow> int" where
  "clamp n mn mx = max mn (min mx n)"

text \<open>The lazy initialiser of \<^verbatim>\<open>best\<close>: \<^verbatim>\<open>v ? parseInt(v) : 0\<close>.\<close>

definition initialBest :: "(string \<rightharpoonup> string) \<Rightarrow> jsnum" where
  "initialBest ls = (case ls ''neonlane_best'' of
       None \<Rightarrow> Num 0
     | Some v \<Rightarrow> if v = [] then Num 0 else parseInt v)"

text \<open>
  \<^verbatim>\<open>spawnObstacle\<close>; \<open>r1\<close> and \<open>r2\<close> are the results of its two calls of
  \<^verbatim>\<open>Math.random()\<close>.
\<close>

definition spawnObstacle :: "real \<Rightarrow> real \<Rightarrow> World \<Rightarrow> World" where
  "spawnObstacle r1 r2 s =
     (let ln = \<lfloor>r1 * real_of_int LANES\<rfloor>;
          wd = CANVAS_W / real_of_int LANES * 0.6;
          ht = 26 + r2 * 20
      in s\<lparr>obstaclesRef := obstaclesRef s @
            [\<lparr>lane = ln, y = - ht, w = wd, h = ht, passed = False\<rparr>]\<rparr>)"

text \<open>\<^verbatim>\<open>draw\<close>, called from a closure with bindings \<open>c\<close>.\<close>

definition draw :: "UI \<Rightarrow> World \<Rightarrow> World" where
  "draw c s =
     s\<lparr>painted := painted s @
        [\<lparr>laneGuide = map (\<lambda>i. int i = playerLane c) [0..<nat LANES],
          playerX = laneX (playerLane c),
          rects = map (\<lambda>ob. (laneX (lane ob) - w ob / 2, y ob, w ob, h ob)) (obstaclesRef s),
          scoreText = ''Score: '' @ js_String (Num (score c)),
          bestText = ''Best: '' @ js_String (best c),
          overlay = (if deadRef s then GameOver else if \<not> running c then Paused else NoOverlay)\<rparr>]\<rparr>"

text \<open>\<^verbatim>\<open>restart\<close>, called from a closure with bindings \<open>c\<close>.\<close>

definition restart :: "UI \<Rightarrow> World \<Rightarrow> World" where
  "restart c s =
     (let s = s\<lparr>obstaclesRef := [], speedRef := BASE_SPEED, spawnIntervalRef := BASE_SPAWN,
                 spawnTimerRef := 0, elapsedRef := 0, deadRef := False\<rparr>;
          s = s\<lparr>state := (state s)\<lparr>score := 0\<rparr>\<rparr>;
          s = s\<lparr>state := (state s)\<lparr>running := True\<rparr>\<rparr>;
          s = (case rafRef s of
                 None \<Rightarrow> s
               | Some i \<Rightarrow> if i \<noteq> 0 then cancelAnimationFrame i s else s);
          (i, s) = requestAnimationFrame c s
      in s\<lparr>rafRef := Some i\<rparr>)"

subsection \<open>The frame loop, stage by stage\<close>

text \<open>
  \<^verbatim>\<open>loop(now)\<close> is split at the comments of the source: timing, difficulty ramp, spawn,
  update obstacles, remove off-screen, collision, and the final draw and reschedule.
  \<open>frameDelta\<close> is the local \<^verbatim>\<open>dt\<close>; \<^verbatim>\<open>_last || now\<close> takes \<^verbatim>\<open>now\<close> when
  \<^verbatim>\<open>_last\<close> is undefined or zero.
\<close>

definition frameDelta :: "real \<Rightarrow> World \<Rightarrow> real" where
  "frameDelta now s =
     (let last = (case loop_last s of None \<Rightarrow> now | Some l \<Rightarrow> if l = 0 then now else l)
      in min 0.05 ((now - last) / 1000))"

definition timing :: "real \<Rightarrow> World \<Rightarrow> World" where
  "timing now s =
     (let dt = frameDelta now s;
          s = s\<lparr>loop_last := Some now\<rparr>
      in s\<lparr>elapsedRef := elapsedRef s + dt\<rparr>)"

definition difficultyRamp :: "World \<Rightarrow> World" where
  "difficultyRamp s =
     (let s = s\<lparr>speedRef := BASE_SPEED + SPEED_GROWTH * elapsedRef s\<rparr>;
          targetSpawn = max MIN_SPAWN (BASE_SPAWN - SPAWN_DECAY * elapsedRef s)
      in s\<lparr>spawnIntervalRef := spawnIntervalRef s * 0.98 + targetSpawn * 0.02\<rparr>)"

definition spawn :: "real \<Rightarrow> real \<Rightarrow> real \<Rightarrow> World \<Rightarrow> World" where
  "spawn dt r1 r2 s =
     (let s = s\<lparr>spawnTimerRef := spawnTimerRef s + dt\<rparr>
      in if spawnTimerRef s \<ge> spawnIntervalRef s
         then spawnObstacle r1 r2 (s\<lparr>spawnTimerRef := 0\<rparr>)
         else s)"

text \<open>
  The callback of \<^verbatim>\<open>obstaclesRef.current.forEach\<close>: it moves one obstacle and, when the
  obstacle is not yet passed and its lower edge is at or below the player's line, marks it
  and calls \<^verbatim>\<open>setScore((s) => s + 1)\<close>, an update of the store.
\<close>

definition stepObstacle :: "real \<Rightarrow> real \<Rightarrow> Obstacle \<Rightarrow> UI \<Rightarrow> Obstacle \<times> UI" where
  "stepObstacle speed dt ob st =
     (let ob = ob\<lparr>y := y ob + speed * dt\<rparr>
      in if \<not> passed ob \<and> y ob + h ob \<ge> PLAYER_Y
         then (ob\<lparr>passed := True\<rparr>, st\<lparr>score := score st + 1\<rparr>)
         else (ob, st))"

fun forEachObstacle :: "real \<Rightarrow> real \<Rightarrow> Obstacle list \<Rightarrow> UI \<Rightarrow> Obstacle list \<times> UI" where
  "forEachObstacle speed dt [] st = ([], st)"
| "forEachObstacle speed dt (ob # obs) st =
     (let (ob', st') = stepObstacle speed dt ob st;
          (obs', st'') = forEachObstacle speed dt obs st'
      in (ob' # obs', st''))"

definition updateObstacles :: "real \<Rightarrow> World \<Rightarrow> World" where
  "updateObstacles dt s =
     (let speed = speedRef s;
          (obs, st) = forEachObstacle speed dt (obstaclesRef s) (state s)
      in s\<lparr>obstaclesRef := obs, state := st\<rparr>)"

definition removeOffscreen :: "World \<Rightarrow> World" where
  "removeOffscreen s =
     s\<lparr>obstaclesRef := filter (\<lambda>ob. y ob < CANVAS_H + h ob) (obstaclesRef s)\<rparr>"

definition overlap :: "Obstacle \<Rightarrow> bool" where
  "overlap ob =
     (let playerTop = PLAYER_Y - PLAYER_R;
          playerBottom = PLAYER_Y + PLAYER_R;
          obstacleTop = y ob;
          obstacleBottom = y ob + h ob
      in \<not> (playerBottom < obstacleTop \<or> playerTop > obstacleBottom))"

text \<open>
  The body of \<^verbatim>\<open>if (overlap)\<close>. \<^verbatim>\<open>best\<close> and \<^verbatim>\<open>score\<close> are read from the
  bindings \<open>c\<close> of the closure; the setters write the store.
\<close>

definition gameOver :: "UI \<Rightarrow> World \<Rightarrow> World" where
  "gameOver c s =
     (let s = s\<lparr>deadRef := True\<rparr>;
          s = s\<lparr>state := (state s)\<lparr>running := False\<rparr>\<rparr>;
          newBest = Math_max (best c) (Num (score c));
          s = s\<lparr>state := (state s)\<lparr>best := newBest\<rparr>\<rparr>
      in s\<lparr>localStorage := (localStorage s)(''neonlane_best'' \<mapsto> js_String newBest)\<rparr>)"

text \<open>The \<^verbatim>\<open>for ... of\<close> loop over the obstacles, left by \<^verbatim>\<open>break\<close> at the first hit.\<close>

fun collision :: "UI \<Rightarrow> Obstacle list \<Rightarrow> World \<Rightarrow> World" where
  "collision c [] s = s"
| "collision c (ob # obs) s =
     (if lane ob = playerLane c
      then (if overlap ob then gameOver c s else collision c obs s)
      else collision c obs s)"

definition present :: "UI \<Rightarrow> World \<Rightarrow> World" where
  "present c s =
     (let s = draw c s;
          (i, s) = requestAnimationFrame c s
      in s\<lparr>rafRef := Some i\<rparr>)"

definition simulate :: "UI \<Rightarrow> real \<Rightarrow> real \<Rightarrow> real \<Rightarrow> World \<Rightarrow> World" where
  "simulate c now r1 r2 s =
     (let dt = frameDelta now s;
          s = timing now s;
          s = difficultyRamp s;
          s = spawn dt r1 r2 s;
          s = updateObstacles dt s;
          s = removeOffscreen s
      in collision c (obstaclesRef s) s)"

text \<open>
  One call of \<^verbatim>\<open>loop\<close> from a closure with bindings \<open>c\<close>, at time stamp \<open>now\<close>, with
  the random numbers \<open>r1\<close>, \<open>r2\<close> a spawn would draw.
\<close>

definition loop :: "UI \<Rightarrow> real \<Rightarrow> real \<Rightarrow> real \<Rightarrow> World \<Rightarrow> World" where
  "loop c now r1 r2 s =
     (if \<not> canvas s then s
      else if \<not> running c \<or> deadRef s then present c s
      else present c (simulate c now r1 r2 s))"

subsection \<open>Mounting and the input handlers\<close>

text \<open>
  The first render and its effects: the refs and the store take their initial values,
  \<^verbatim>\<open>best\<close> is read from storage, and the loop of the first render is registered.
\<close>

definition mount :: "(string \<rightharpoonup> string) \<Rightarrow> World" where
  "mount ls =
     (let c = \<lparr>running = True, playerLane = 1, score = 0, best = initialBest ls\<rparr>;
          s = \<lparr>canvas = True, rafRef = None, obstaclesRef = [], speedRef = BASE_SPEED,
               spawnTimerRef = 0, spawnIntervalRef = BASE_SPAWN, elapsedRef = 0,
               deadRef = False, loop_last = None, state = c, localStorage = ls,
               rafNext = 1, rafQueue = [], painted = []\<rparr>;
          (i, s) = requestAnimationFrame c s
      in s\<lparr>rafRef := Some i\<rparr>)"

definition setPlayerLane :: "(int \<Rightarrow> int) \<Rightarrow> World \<Rightarrow> World" where
  "setPlayerLane f s = s\<lparr>state := (state s)\<lparr>playerLane := f (playerLane (state s))\<rparr>\<rparr>"

definition setRunning :: "(bool \<Rightarrow> bool) \<Rightarrow> World \<Rightarrow> World" where
  "setRunning f s = s\<lparr>state := (state s)\<lparr>running := f (running (state s))\<rparr>\<rparr>"

text \<open>
  The lane handler of \<^verbatim>\<open>pointerdown\<close>; \<open>x\<close> is \<^verbatim>\<open>e.clientX - rect.left\<close>.
\<close>

definition onPointerDown :: "real \<Rightarrow> World \<Rightarrow> World" where
  "onPointerDown x s =
     (let half = CANVAS_W / 2
      in if x < half then setPlayerLane (\<lambda>l. clamp (l - 1) 0 (LANES - 1)) s
         else setPlayerLane (\<lambda>l. clamp (l + 1) 0 (LANES - 1)) s)"

text \<open>The second \<^verbatim>\<open>pointerdown\<close> handler: \<^verbatim>\<open>if (deadRef.current) restart()\<close>.\<close>

definition onPointerDownDead :: "UI \<Rightarrow> World \<Rightarrow> World" where
  "onPointerDownDead c s = (if deadRef s then restart c s else s)"

definition onKey :: "UI \<Rightarrow> string \<Rightarrow> World \<Rightarrow> World" where
  "onKey c k s =
     (if k = ''ArrowLeft'' \<or> toLowerCase k = ''a''
        then setPlayerLane (\<lambda>l. clamp (l - 1) 0 (LANES - 1)) s
      else if k = ''ArrowRight'' \<or> toLowerCase k = ''d''
        then setPlayerLane (\<lambda>l. clamp (l + 1) 0 (LANES - 1)) s
      else if toLowerCase k = ''r''
        then (if deadRef s then restart c s else s)
      else if toLowerCase k = ''p''
        then setRunning (\<lambda>r. \<not> r) s
      else s)"

text \<open>
  Everything that can happen to a mounted component: a frame, a pointer press on the
  canvas (both handlers run, in the order they were registered), a key, and the two
  buttons. Each event carries the bindings \<open>c\<close> of the closure that handles it.
\<close>

datatype Event =
    Frame real real real
  | PointerDown real
  | KeyDown string
  | ClickPause
  | ClickRestart

fun dispatch :: "World \<Rightarrow> UI \<times> Event \<Rightarrow> World" where
  "dispatch s (c, Frame now r1 r2) = loop c now r1 r2 s"
| "dispatch s (c, PointerDown x) = onPointerDownDead c (onPointerDown x s)"
| "dispatch s (c, KeyDown k) = onKey c k s"
| "dispatch s (c, ClickPause) = setRunning (\<lambda>r. \<not> r) s"
| "dispatch s (c, ClickRestart) = restart c s"

text \<open>The worlds a sequence of frames goes through, the first one included.\<close>

fun frames :: "World \<Rightarrow> (UI \<times> real \<times> real \<times> real) list \<Rightarrow> World list" where
  "frames s [] = [s]"
| "frames s ((c, now, r1, r2) # fs) = s # frames (loop c now r1 r2 s) fs"

subsection \<open>Notions used in the statements\<close>

text \<open>
  A call of \<^verbatim>\<open>loop\<close> runs the simulation when it gets past both early returns: the
  canvas is there, the \<^verbatim>\<open>running\<close> the loop reads is true, and the run has not ended.
\<close>

definition simulated :: "UI \<Rightarrow> World \<Rightarrow> bool" where
  "simulated c s = (canvas s \<and> running c \<and> \<not> deadRef s)"

text \<open>
  The world of a frame just before and just after the \<^verbatim>\<open>forEach\<close> over the
  obstacles (after the spawn step; before the off-screen filter).
\<close>

definition beforeUpdate :: "real \<Rightarrow> real \<Rightarrow> real \<Rightarrow> World \<Rightarrow> World" where
  "beforeUpdate now r1 r2 s = spawn (frameDelta now s) r1 r2 (difficultyRamp (timing now s))"

definition afterUpdate :: "real \<Rightarrow> real \<Rightarrow> real \<Rightarrow> World \<Rightarrow> World" where
  "afterUpdate now r1 r2 s = updateObstacles (frameDelta now s) (beforeUpdate now r1 r2 s)"

text \<open>Every obstacle not yet passed has its lower edge above the player's line.\<close>

definition unscoredAbove :: "World \<Rightarrow> bool" where
  "unscoredAbove s = list_all (\<lambda>ob. passed ob \<or> y ob + h ob < PLAYER_Y) (obstaclesRef s)"

text \<open>
  The speed is the ramp's value at the elapsed time, and the spawn interval has not
  fallen below its target.
\<close>

definition rampInv :: "World \<Rightarrow> bool" where
  "rampInv s =
     (speedRef s = BASE_SPEED + SPEED_GROWTH * elapsedRef s \<and>
      max MIN_SPAWN (BASE_SPAWN - SPAWN_DECAY * elapsedRef s) \<le> spawnIntervalRef s)"

text \<open>
  The time stamps of a sequence of frames, headed by the one the loop function remembers
  (when it remembers one).
\<close>

definition stamps :: "World \<Rightarrow> (UI \<times> real \<times> real \<times> real) list \<Rightarrow> real list" where
  "stamps s fs =
     (case loop_last s of None \<Rightarrow> [] | Some l \<Rightarrow> [l]) @ map (\<lambda>(c, now, r1, r2). now) fs"

definition laneOk :: "World \<Rightarrow> bool" where
  "laneOk s = (0 \<le> playerLane (state s) \<and> playerLane (state s) \<le> LANES - 1)"


subsection \<open>Example inputs\<close>

text \<open>
  The bindings of the first render with nothing stored; the bindings of a render during
  a run with twelve obstacles passed and a stored best of three, running and paused; a
  world thirty seconds into a run, with given store and obstacles, whose last frame was
  at time stamp 30000; and a world four and a half seconds into the first run, with
  nothing stored and nothing scored, whose last frame was at time stamp 5500.
\<close>

definition firstRender :: UI where
  "firstRender = \<lparr>running = True, playerLane = 1, score = 0, best = Num 0\<rparr>"

definition runRender :: UI where
  "runRender = \<lparr>running = True, playerLane = 1, score = 12, best = Num 3\<rparr>"

definition pausedRender :: UI where
  "pausedRender = \<lparr>running = False, playerLane = 1, score = 12, best = Num 3\<rparr>"

definition midRun :: "UI \<Rightarrow> Obstacle list \<Rightarrow> World" where
  "midRun st obs =
     \<lparr>canvas = True, rafRef = Some 600, obstaclesRef = obs, speedRef = 320,
      spawnTimerRef = 0.1, spawnIntervalRef = 0.36, elapsedRef = 30, deadRef = False,
      loop_last = Some 30000, state = st, localStorage = [''neonlane_best'' \<mapsto> ''3''],
      rafNext = 601, rafQueue = [], painted = []\<rparr>"

definition firstRun :: "Obstacle list \<Rightarrow> World" where
  "firstRun obs =
     \<lparr>canvas = True, rafRef = Some 90, obstaclesRef = obs, speedRef = 167,
      spawnTimerRef = 0.1, spawnIntervalRef = 0.88, elapsedRef = 4.5, deadRef = False,
      loop_last = Some 5500, state = firstRender, localStorage = Map.empty,
      rafNext = 91, rafQueue = [], painted = []\<rparr>"

lemmas frame_defs =
  loop_def present_def simulate_def frameDelta_def timing_def difficultyRamp_def spawn_def
  spawnObstacle_def updateObstacles_def stepObstacle_def removeOffscreen_def overlap_def
  gameOver_def draw_def requestAnimationFrame_def Let_def consts_defs Math_max_def laneX_def

text \<open>The example worlds satisfy the invariants of the statements below.\<close>

lemma examples_consistent:
  "rampInv (midRun st obs)"
  "rampInv (firstRun obs)"
  "laneOk (midRun runRender obs)"
  "laneOk (midRun pausedRender obs)"
  "laneOk (firstRun obs)"
  by (simp_all add: rampInv_def laneOk_def midRun_def firstRun_def runRender_def pausedRender_def
      firstRender_def consts_defs)

section \<open>What each stage changes\<close>

lemma present_fields [simp]:
  "canvas (present c s) = canvas s"
  "obstaclesRef (present c s) = obstaclesRef s"
  "speedRef (present c s) = speedRef s"
  "spawnTimerRef (present c s) = spawnTimerRef s"
  "spawnIntervalRef (present c s) = spawnIntervalRef s"
  "elapsedRef (present c s) = elapsedRef s"
  "deadRef (present c s) = deadRef s"
  "loop_last (present c s) = loop_last s"
  "state (present c s) = state s"
  "localStorage (present c s) = localStorage s"
  "rafRef (present c s) = Some (rafNext s)"
  "rafNext (present c s) = rafNext s + 1"
  "rafQueue (present c s) = rafQueue s @ [(rafNext s, c)]"
  by (simp_all add: present_def draw_def requestAnimationFrame_def Let_def)


lemma gameOver_fields [simp]:
  "canvas (gameOver c s) = canvas s"
  "obstaclesRef (gameOver c s) = obstaclesRef s"
  "speedRef (gameOver c s) = speedRef s"
  "spawnTimerRef (gameOver c s) = spawnTimerRef s"
  "spawnIntervalRef (gameOver c s) = spawnIntervalRef s"
  "elapsedRef (gameOver c s) = elapsedRef s"
  "deadRef (gameOver c s) = True"
  "loop_last (gameOver c s) = loop_last s"
  "score (state (gameOver c s)) = score (state s)"
  "playerLane (state (gameOver c s)) = playerLane (state s)"
  "running (state (gameOver c s)) = False"
  "best (state (gameOver c s)) = Math_max (best c) (Num (score c))"
  "localStorage (gameOver c s) =
     (localStorage s)(''neonlane_best'' \<mapsto> js_String (Math_max (best c) (Num (score c))))"
  "rafRef (gameOver c s) = rafRef s"
  "rafNext (gameOver c s) = rafNext s"
  "rafQueue (gameOver c s) = rafQueue s"
  "painted (gameOver c s) = painted s"
  by (simp_all add: gameOver_def Let_def)

lemma collision_cases:
  "collision c obs s =
     (if \<exists>ob \<in> set obs. lane ob = playerLane c \<and> overlap ob then gameOver c s else s)"
  by (induction obs) auto

lemma stepObstacle_eq:
  "stepObstacle speed dt ob st =
     (if \<not> passed ob \<and> PLAYER_Y \<le> y ob + speed * dt + h ob
      then (ob\<lparr>y := y ob + speed * dt, passed := True\<rparr>, st\<lparr>score := score st + 1\<rparr>)
      else (ob\<lparr>y := y ob + speed * dt\<rparr>, st))"
  by (simp add: stepObstacle_def Let_def)

lemma forEachObstacle_fst:
  "fst (forEachObstacle speed dt obs st) =
     map (\<lambda>ob. ob\<lparr>y := y ob + speed * dt,
                  passed := passed ob \<or> PLAYER_Y \<le> y ob + speed * dt + h ob\<rparr>) obs"
  by (induction obs arbitrary: st) (simp_all add: stepObstacle_eq case_prod_beta)

lemma forEachObstacle_snd:
  "snd (forEachObstacle speed dt obs st) =
     st\<lparr>score := score st +
        int (length (filter (\<lambda>ob. \<not> passed ob \<and> PLAYER_Y \<le> y ob + speed * dt + h ob) obs))\<rparr>"
  by (induction obs arbitrary: st) (simp_all add: stepObstacle_eq case_prod_beta)

lemma timing_fields [simp]:
  "canvas (timing now s) = canvas s"
  "obstaclesRef (timing now s) = obstaclesRef s"
  "speedRef (timing now s) = speedRef s"
  "spawnTimerRef (timing now s) = spawnTimerRef s"
  "spawnIntervalRef (timing now s) = spawnIntervalRef s"
  "elapsedRef (timing now s) = elapsedRef s + frameDelta now s"
  "deadRef (timing now s) = deadRef s"
  "loop_last (timing now s) = Some now"
  "state (timing now s) = state s"
  "localStorage (timing now s) = localStorage s"
  "rafRef (timing now s) = rafRef s"
  "rafNext (timing now s) = rafNext s"
  "rafQueue (timing now s) = rafQueue s"
  "painted (timing now s) = painted s"
  by (simp_all add: timing_def Let_def)

lemma difficultyRamp_fields [simp]:
  "canvas (difficultyRamp s) = canvas s"
  "obstaclesRef (difficultyRamp s) = obstaclesRef s"
  "speedRef (difficultyRamp s) = BASE_SPEED + SPEED_GROWTH * elapsedRef s"
  "spawnTimerRef (difficultyRamp s) = spawnTimerRef s"
  "spawnIntervalRef (difficultyRamp s) =
     spawnIntervalRef s * 0.98 + max MIN_SPAWN (BASE_SPAWN - SPAWN_DECAY * elapsedRef s) * 0.02"
  "elapsedRef (difficultyRamp s) = elapsedRef s"
  "deadRef (difficultyRamp s) = deadRef s"
  "loop_last (difficultyRamp s) = loop_last s"
  "state (difficultyRamp s) = state s"
  "localStorage (difficultyRamp s) = localStorage s"
  "rafRef (difficultyRamp s) = rafRef s"
  "rafNext (difficultyRamp s) = rafNext s"
  "rafQueue (difficultyRamp s) = rafQueue s"
  "painted (difficultyRamp s) = painted s"
  by (simp_all add: difficultyRamp_def Let_def)

lemma spawn_fields [simp]:
  "canvas (spawn dt r1 r2 s) = canvas s"
  "speedRef (spawn dt r1 r2 s) = speedRef s"
  "spawnIntervalRef (spawn dt r1 r2 s) = spawnIntervalRef s"
  "elapsedRef (spawn dt r1 r2 s) = elapsedRef s"
  "deadRef (spawn dt r1 r2 s) = deadRef s"
  "loop_last (spawn dt r1 r2 s) = loop_last s"
  "state (spawn dt r1 r2 s) = state s"
  "localStorage (spawn dt r1 r2 s) = localStorage s"
  "rafRef (spawn dt r1 r2 s) = rafRef s"
  "rafNext (spawn dt r1 r2 s) = rafNext s"
  "rafQueue (spawn dt r1 r2 s) = rafQueue s"
  "painted (spawn dt r1 r2 s) = painted s"
  by (simp_all add: spawn_def spawnObstacle_def Let_def)

lemma spawn_obstacles:
  "obstaclesRef (spawn dt r1 r2 s) =
     (if spawnIntervalRef s \<le> spawnTimerRef s + dt
      then obstaclesRef s @
        [\<lparr>lane = \<lfloor>r1 * real_of_int LANES\<rfloor>, y = - (26 + r2 * 20),
          w = CANVAS_W / real_of_int LANES * 0.6, h = 26 + r2 * 20, passed = False\<rparr>]
      else obstaclesRef s)"
  by (simp add: spawn_def spawnObstacle_def Let_def)

lemma spawn_timer:
  "spawnTimerRef (spawn dt r1 r2 s) =
     (if spawnIntervalRef s \<le> spawnTimerRef s + dt then 0 else spawnTimerRef s + dt)"
  by (simp add: spawn_def spawnObstacle_def Let_def)

lemma updateObstacles_fields [simp]:
  "canvas (updateObstacles dt s) = canvas s"
  "speedRef (updateObstacles dt s) = speedRef s"
  "spawnTimerRef (updateObstacles dt s) = spawnTimerRef s"
  "spawnIntervalRef (updateObstacles dt s) = spawnIntervalRef s"
  "elapsedRef (updateObstacles dt s) = elapsedRef s"
  "deadRef (updateObstacles dt s) = deadRef s"
  "loop_last (updateObstacles dt s) = loop_last s"
  "localStorage (updateObstacles dt s) = localStorage s"
  "rafRef (updateObstacles dt s) = rafRef s"
  "rafNext (updateObstacles dt s) = rafNext s"
  "rafQueue (updateObstacles dt s) = rafQueue s"
  "painted (updateObstacles dt s) = painted s"
  by (simp_all add: updateObstacles_def Let_def case_prod_beta)

lemma updateObstacles_obstacles:
  "obstaclesRef (updateObstacles dt s) =
     map (\<lambda>ob. ob\<lparr>y := y ob + speedRef s * dt,
                  passed := passed ob \<or> PLAYER_Y \<le> y ob + speedRef s * dt + h ob\<rparr>)
       (obstaclesRef s)"
  by (simp add: updateObstacles_def Let_def case_prod_beta forEachObstacle_fst)

lemma updateObstacles_state:
  "state (updateObstacles dt s) =
     (state s)\<lparr>score := score (state s) +
        int (length (filter (\<lambda>ob. \<not> passed ob \<and> PLAYER_Y \<le> y ob + speedRef s * dt + h ob)
          (obstaclesRef s)))\<rparr>"
  by (simp add: updateObstacles_def Let_def case_prod_beta forEachObstacle_snd)

lemma removeOffscreen_fields [simp]:
  "canvas (removeOffscreen s) = canvas s"
  "speedRef (removeOffscreen s) = speedRef s"
  "spawnTimerRef (removeOffscreen s) = spawnTimerRef s"
  "spawnIntervalRef (removeOffscreen s) = spawnIntervalRef s"
  "elapsedRef (removeOffscreen s) = elapsedRef s"
  "deadRef (removeOffscreen s) = deadRef s"
  "loop_last (removeOffscreen s) = loop_last s"
  "state (removeOffscreen s) = state s"
  "localStorage (removeOffscreen s) = localStorage s"
  "rafRef (removeOffscreen s) = rafRef s"
  "rafNext (removeOffscreen s) = rafNext s"
  "rafQueue (removeOffscreen s) = rafQueue s"
  "painted (removeOffscreen s) = painted s"
  "obstaclesRef (removeOffscreen s) = filter (\<lambda>ob. y ob < CANVAS_H + h ob) (obstaclesRef s)"
  by (simp_all add: removeOffscreen_def)

lemma collision_fields [simp]:
  "canvas (collision c obs s) = canvas s"
  "obstaclesRef (collision c obs s) = obstaclesRef s"
  "speedRef (collision c obs s) = speedRef s"
  "spawnTimerRef (collision c obs s) = spawnTimerRef s"
  "spawnIntervalRef (collision c obs s) = spawnIntervalRef s"
  "elapsedRef (collision c obs s) = elapsedRef s"
  "loop_last (collision c obs s) = loop_last s"
  "score (state (collision c obs s)) = score (state s)"
  "playerLane (state (collision c obs s)) = playerLane (state s)"
  "rafRef (collision c obs s) = rafRef s"
  "rafNext (collision c obs s) = rafNext s"
  "rafQueue (collision c obs s) = rafQueue s"
  "painted (collision c obs s) = painted s"
  by (simp_all add: collision_cases)


section \<open>What a frame changes\<close>

lemma simulate_stages:
  "simulate c now r1 r2 s =
     collision c (obstaclesRef (removeOffscreen (afterUpdate now r1 r2 s)))
       (removeOffscreen (afterUpdate now r1 r2 s))"
  by (simp add: simulate_def afterUpdate_def beforeUpdate_def Let_def)

lemma loop_cases:
  "loop c now r1 r2 s =
     (if simulated c s then present c (simulate c now r1 r2 s)
      else if canvas s then present c s else s)"
  by (auto simp: loop_def simulated_def)


lemma simulate_fields [simp]:
  "canvas (simulate c now r1 r2 s) = canvas s"
  "obstaclesRef (simulate c now r1 r2 s) =
     filter (\<lambda>ob. y ob < CANVAS_H + h ob) (obstaclesRef (afterUpdate now r1 r2 s))"
  "score (state (simulate c now r1 r2 s)) = score (state (afterUpdate now r1 r2 s))"
  "playerLane (state (simulate c now r1 r2 s)) = playerLane (state s)"
  "loop_last (simulate c now r1 r2 s) = Some now"
  "elapsedRef (simulate c now r1 r2 s) = elapsedRef s + frameDelta now s"
  "speedRef (simulate c now r1 r2 s) = BASE_SPEED + SPEED_GROWTH * (elapsedRef s + frameDelta now s)"
  "spawnIntervalRef (simulate c now r1 r2 s) =
     spawnIntervalRef s * 0.98 +
     max MIN_SPAWN (BASE_SPAWN - SPAWN_DECAY * (elapsedRef s + frameDelta now s)) * 0.02"
  by (simp_all add: simulate_stages afterUpdate_def beforeUpdate_def updateObstacles_state)


lemma loop_obstacles:
  "obstaclesRef (loop c now r1 r2 s) =
     (if simulated c s
      then filter (\<lambda>ob. y ob < CANVAS_H + h ob) (obstaclesRef (afterUpdate now r1 r2 s))
      else obstaclesRef s)"
  by (simp add: loop_cases)

lemma loop_score:
  "score (state (loop c now r1 r2 s)) =
     (if simulated c s then score (state (afterUpdate now r1 r2 s)) else score (state s))"
  by (simp add: loop_cases)

lemma loop_lane [simp]:
  "playerLane (state (loop c now r1 r2 s)) = playerLane (state s)"
  by (simp add: loop_cases)


lemma loop_ramp:
  "elapsedRef (loop c now r1 r2 s) =
     (if simulated c s then elapsedRef s + frameDelta now s else elapsedRef s)"
  "speedRef (loop c now r1 r2 s) =
     (if simulated c s then BASE_SPEED + SPEED_GROWTH * (elapsedRef s + frameDelta now s)
      else speedRef s)"
  "spawnIntervalRef (loop c now r1 r2 s) =
     (if simulated c s
      then spawnIntervalRef s * 0.98 +
           max MIN_SPAWN (BASE_SPAWN - SPAWN_DECAY * (elapsedRef s + frameDelta now s)) * 0.02
      else spawnIntervalRef s)"
  "loop_last (loop c now r1 r2 s) = (if simulated c s then Some now else loop_last s)"
  by (simp_all add: loop_cases)


lemma restart_fields [simp]:
  "playerLane (state (restart c s)) = playerLane (state s)"
  "localStorage (restart c s) = localStorage s"
  "obstaclesRef (restart c s) = []"
  "score (state (restart c s)) = 0"
  by (simp_all add: restart_def cancelAnimationFrame_def requestAnimationFrame_def Let_def
      split: option.splits)

lemma handlers_fields [simp]:
  "deadRef (setPlayerLane f s) = deadRef s"
  "deadRef (setRunning g s) = deadRef s"
  "deadRef (onPointerDown x s) = deadRef s"
  "obstaclesRef (setPlayerLane f s) = obstaclesRef s"
  "obstaclesRef (setRunning g s) = obstaclesRef s"
  "obstaclesRef (onPointerDown x s) = obstaclesRef s"
  "score (state (setPlayerLane f s)) = score (state s)"
  "score (state (setRunning g s)) = score (state s)"
  "score (state (onPointerDown x s)) = score (state s)"
  by (simp_all add: setPlayerLane_def setRunning_def onPointerDown_def Let_def)

section \<open>The claims\<close>

subsection \<open>Restart\<close>

text \<open>
  C9. \<^verbatim>\<open>restart\<close>, from any world and called from any closure, leaves the obstacle
  list empty, the speed at \<open>BASE_SPEED\<close>, the spawn interval at \<open>BASE_SPAWN\<close>, the spawn
  timer and the elapsed time at zero, the dead flag cleared, the score of the store at
  zero and its running flag true.
\<close>

theorem restart_resets:
  "obstaclesRef (restart c s) = [] \<and>
   speedRef (restart c s) = BASE_SPEED \<and>
   spawnIntervalRef (restart c s) = BASE_SPAWN \<and>
   spawnTimerRef (restart c s) = 0 \<and>
   elapsedRef (restart c s) = 0 \<and>
   deadRef (restart c s) = False \<and>
   score (state (restart c s)) = 0 \<and>
   running (state (restart c s)) = True"
  by (simp add: restart_def cancelAnimationFrame_def requestAnimationFrame_def Let_def
      split: option.splits)

subsection \<open>Paused and ended frames\<close>



subsection \<open>Spawning\<close>

lemma random_lane:
  assumes "0 \<le> r1" and "r1 < 1"
  shows "\<lfloor>r1 * real_of_int LANES\<rfloor> \<in> {0, 1, 2}"
proof -
  have "0 \<le> r1 * 3" and "r1 * 3 < 3"
    using assms by simp_all
  then have "0 \<le> \<lfloor>r1 * 3\<rfloor>" and "\<lfloor>r1 * 3\<rfloor> < 3"
    by (simp_all add: floor_less_iff)
  moreover define k where "k = \<lfloor>r1 * 3\<rfloor>"
  ultimately have "0 \<le> k" and "k < 3"
    by simp_all
  then have "k \<in> {0, 1, 2}"
    by auto
  then show ?thesis
    by (simp add: k_def LANES_def)
qed

text \<open>
  C10. The spawn step of a frame, for any delta and any timer and interval, adds one
  obstacle when the advanced timer has reached the interval and none otherwise. When it
  adds one, the timer is exactly zero afterwards, and the obstacle pushed is not passed,
  lies in lane 0, 1 or 2 and has its top at \<open>- h\<close> (\<open>r1\<close>, the result of
  \<^verbatim>\<open>Math.random()\<close>, lies in \<open>[0, 1)\<close>). So the list the frame moves is at most one
  longer than the list the frame started with, and so is the list the frame leaves.
\<close>

theorem spawn_at_most_one:
  assumes "0 \<le> r1" and "r1 < 1"
  shows "(if spawnIntervalRef s \<le> spawnTimerRef s + dt
          then (\<exists>ob. obstaclesRef (spawn dt r1 r2 s) = obstaclesRef s @ [ob] \<and>
                  passed ob = False \<and> lane ob \<in> {0, 1, 2} \<and> y ob = - h ob) \<and>
               spawnTimerRef (spawn dt r1 r2 s) = 0
          else obstaclesRef (spawn dt r1 r2 s) = obstaclesRef s \<and>
               spawnTimerRef (spawn dt r1 r2 s) = spawnTimerRef s + dt) \<and>
         length (obstaclesRef (beforeUpdate now r1 r2 s)) \<le> length (obstaclesRef s) + 1 \<and>
         length (obstaclesRef (loop c now r1 r2 s)) \<le> length (obstaclesRef s) + 1"
proof -
  have stage: "length (obstaclesRef (beforeUpdate now r1 r2 s)) \<le> length (obstaclesRef s) + 1"
    by (simp add: beforeUpdate_def spawn_obstacles)
  have "length (obstaclesRef (loop c now r1 r2 s)) \<le> length (obstaclesRef (beforeUpdate now r1 r2 s))
        \<or> obstaclesRef (loop c now r1 r2 s) = obstaclesRef s"
    by (simp add: loop_obstacles afterUpdate_def updateObstacles_obstacles)
  with stage have frame: "length (obstaclesRef (loop c now r1 r2 s)) \<le> length (obstaclesRef s) + 1"
    by auto
  show ?thesis
    using random_lane [OF assms] stage frame
    by (simp add: spawn_obstacles spawn_timer)
qed

text \<open>A spawn with the timer far past the interval: one obstacle, timer at zero.\<close>

theorem spawn_at_most_one_witness:
  "(0::real) \<le> 1 / 2 \<and> (1 / 2 :: real) < 1 \<and>
   obstaclesRef (spawn 0.3 (1 / 2) (1 / 2) (midRun runRender [])) =
     [\<lparr>lane = 1, y = - 36, w = 72, h = 36, passed = False\<rparr>] \<and>
   spawnTimerRef (spawn 0.3 (1 / 2) (1 / 2) (midRun runRender [])) = 0"
  using spawn_at_most_one [where ?r1.0 = "1 / 2" and ?r2.0 = "1 / 2" and s = "midRun runRender []"
      and dt = "0.3" and now = 30050 and c = runRender]
  by (simp add: midRun_def spawn_def spawnObstacle_def Let_def consts_defs)

subsection \<open>Removing obstacles\<close>

text \<open>
  C6, as the code has it. The obstacles a frame leaves are, on a frame that runs the
  simulation, exactly the moved obstacles with \<open>y < CANVAS_H + h\<close>, in their order: an
  obstacle is removed when its top is at least its own height below the lower bound, not
  as soon as it is entirely below it. A frame that skips the simulation removes nothing.
\<close>

theorem offscreen_removed:
  "obstaclesRef (loop c now r1 r2 s) =
     (if simulated c s
      then filter (\<lambda>ob. \<not> CANVAS_H + h ob \<le> y ob) (obstaclesRef (afterUpdate now r1 r2 s))
      else obstaclesRef s)"
  by (simp add: loop_obstacles not_le)

text \<open>
  An obstacle of height 30 moved to \<open>y = 646.015\<close>, entirely below the lower bound 640
  of the visible area, is still in the list after the frame.
\<close>

theorem offscreen_removed_counterexample:
  "obstaclesRef (loop runRender 30050 0 0
      (midRun runRender [\<lparr>lane = 0, y = 630, w = 72, h = 30, passed = True\<rparr>])) =
     [\<lparr>lane = 0, y = 646.015, w = 72, h = 30, passed = True\<rparr>] \<and>
   CANVAS_H \<le> 646.015"
  by (simp add: runRender_def midRun_def frame_defs)

text \<open>An obstacle moved to \<open>y = 676.015\<close> is removed; one further up stays.\<close>

theorem offscreen_removed_witness:
  "simulated runRender
     (midRun runRender [\<lparr>lane = 0, y = 660, w = 72, h = 30, passed = True\<rparr>,
                        \<lparr>lane = 2, y = 100, w = 72, h = 30, passed = False\<rparr>]) \<and>
   obstaclesRef (loop runRender 30050 0 0
     (midRun runRender [\<lparr>lane = 0, y = 660, w = 72, h = 30, passed = True\<rparr>,
                        \<lparr>lane = 2, y = 100, w = 72, h = 30, passed = False\<rparr>])) =
     [\<lparr>lane = 2, y = 116.015, w = 72, h = 30, passed = False\<rparr>]"
  using offscreen_removed [of runRender 30050 0 0
      "midRun runRender [\<lparr>lane = 0, y = 660, w = 72, h = 30, passed = True\<rparr>,
                         \<lparr>lane = 2, y = 100, w = 72, h = 30, passed = False\<rparr>]"]
  by (simp add: runRender_def midRun_def frame_defs simulated_def afterUpdate_def beforeUpdate_def)

subsection \<open>Collision\<close>

lemma overlap_iff:
  "overlap ob \<longleftrightarrow> y ob \<le> PLAYER_Y + PLAYER_R \<and> PLAYER_Y - PLAYER_R \<le> y ob + h ob"
  by (auto simp: overlap_def Let_def)

text \<open>For an obstacle of height at least zero the test is that the two closed intervals meet.\<close>

lemma overlap_intervals:
  assumes "0 \<le> h ob"
  shows "overlap ob \<longleftrightarrow>
           {y ob .. y ob + h ob} \<inter> {PLAYER_Y - PLAYER_R .. PLAYER_Y + PLAYER_R} \<noteq> {}"
proof -
  have "0 \<le> PLAYER_R"
    by (simp add: PLAYER_R_def)
  with assms show ?thesis
    unfolding overlap_iff Int_atLeastAtMost by auto
qed




subsection \<open>Scoring\<close>

lemma beforeUpdate_unscored:
  assumes "unscoredAbove s"
  shows "list_all (\<lambda>ob. passed ob \<or> y ob + h ob < PLAYER_Y) (obstaclesRef (beforeUpdate now r1 r2 s))"
  using assms
  by (simp add: unscoredAbove_def beforeUpdate_def spawn_obstacles PLAYER_Y_def CANVAS_H_def)

lemma afterUpdate_unscored:
  "list_all (\<lambda>ob. passed ob \<or> y ob + h ob < PLAYER_Y) (obstaclesRef (afterUpdate now r1 r2 s))"
  by (auto simp: afterUpdate_def updateObstacles_obstacles list_all_iff)

lemma afterUpdate_score:
  "score (state (afterUpdate now r1 r2 s)) =
     score (state s) +
     int (length (filter
       (\<lambda>ob. \<not> passed ob \<and>
          PLAYER_Y \<le> y ob + speedRef (beforeUpdate now r1 r2 s) * frameDelta now s + h ob)
       (obstaclesRef (beforeUpdate now r1 r2 s))))"
  by (simp add: afterUpdate_def updateObstacles_state) (simp add: beforeUpdate_def)

text \<open>The invariant holds when the component is mounted and after a restart.\<close>

lemma unscoredAbove_start:
  "unscoredAbove (mount ls)"
  "unscoredAbove (restart c s)"
  by (simp_all add: unscoredAbove_def mount_def requestAnimationFrame_def Let_def)

text \<open>
  Outside a frame nothing moves an obstacle or sets its flag, and the score is left as it
  is or, by a restart, set to zero.
\<close>

lemma dispatch_no_frame:
  assumes "\<And>now r1 r2. e \<noteq> Frame now r1 r2"
  shows "obstaclesRef (dispatch s (c, e)) = obstaclesRef s \<or> obstaclesRef (dispatch s (c, e)) = []"
    and "score (state (dispatch s (c, e))) = score (state s) \<or> score (state (dispatch s (c, e))) = 0"
  using assms by (cases e; simp add: onPointerDownDead_def onKey_def)+

text \<open>
  C4. In a world where every obstacle not yet passed is above the player's line (so it
  is when the component is mounted and after a restart, and every frame keeps it so), a
  frame moves each obstacle down by speed times delta and leaves its flag set if it was
  set, or if the lower edge \<open>y + h\<close> is now at or below \<open>PLAYER_Y\<close>: a set flag is never
  cleared, and a flag goes from false to true in the frame in which the lower edge, above
  the line before, reaches it. The score grows by the number of obstacles whose flag goes
  from false to true in the frame, and by nothing on a frame that skips the simulation.
  The obstacles the frame leaves are the moved ones that are kept, flags included. No
  event other than a frame raises the score: it stays, or a restart sets it to zero.
\<close>

theorem scored_once:
  assumes "unscoredAbove s"
  shows "let pre = obstaclesRef (beforeUpdate now r1 r2 s);
             d = speedRef (beforeUpdate now r1 r2 s) * frameDelta now s;
             post = obstaclesRef (afterUpdate now r1 r2 s)
         in post = map (\<lambda>ob. ob\<lparr>y := y ob + d,
                                  passed := passed ob \<or> PLAYER_Y \<le> y ob + d + h ob\<rparr>) pre \<and>
            list_all (\<lambda>ob. passed ob \<or> y ob + h ob < PLAYER_Y) pre \<and>
            score (state (loop c now r1 r2 s)) =
              score (state s) +
              (if simulated c s
               then int (length (filter
                      (\<lambda>ob. \<not> passed ob \<and> y ob + h ob < PLAYER_Y \<and> PLAYER_Y \<le> y ob + d + h ob) pre))
               else 0) \<and>
            obstaclesRef (loop c now r1 r2 s) =
              (if simulated c s then filter (\<lambda>ob. y ob < CANVAS_H + h ob) post
               else obstaclesRef s) \<and>
            unscoredAbove (loop c now r1 r2 s) \<and>
            (\<forall>e. (\<forall>t u v. e \<noteq> Frame t u v) \<longrightarrow>
               score (state (dispatch s (c, e))) \<in> {score (state s), 0})"
proof -
  let ?pre = "obstaclesRef (beforeUpdate now r1 r2 s)"
  let ?d = "speedRef (beforeUpdate now r1 r2 s) * frameDelta now s"
  let ?post = "obstaclesRef (afterUpdate now r1 r2 s)"
  have moved: "?post = map (\<lambda>ob. ob\<lparr>y := y ob + ?d,
      passed := passed ob \<or> PLAYER_Y \<le> y ob + ?d + h ob\<rparr>) ?pre"
    by (simp add: afterUpdate_def updateObstacles_obstacles)
  have above: "list_all (\<lambda>ob. passed ob \<or> y ob + h ob < PLAYER_Y) ?pre"
    using assms by (rule beforeUpdate_unscored)
  have "filter (\<lambda>ob. \<not> passed ob \<and> PLAYER_Y \<le> y ob + ?d + h ob) ?pre =
        filter (\<lambda>ob. \<not> passed ob \<and> y ob + h ob < PLAYER_Y \<and> PLAYER_Y \<le> y ob + ?d + h ob) ?pre"
    using above by (intro filter_cong) (auto simp: list_all_iff)
  then have counted: "score (state (loop c now r1 r2 s)) =
      score (state s) +
      (if simulated c s
       then int (length (filter
              (\<lambda>ob. \<not> passed ob \<and> y ob + h ob < PLAYER_Y \<and> PLAYER_Y \<le> y ob + ?d + h ob) ?pre))
       else 0)"
    by (simp add: loop_score afterUpdate_score)
  have kept: "unscoredAbove (loop c now r1 r2 s)"
    using assms afterUpdate_unscored [of now r1 r2 s]
    by (auto simp: unscoredAbove_def loop_obstacles list_all_iff)
  have others: "\<forall>e. (\<forall>t u v. e \<noteq> Frame t u v) \<longrightarrow>
      score (state (dispatch s (c, e))) \<in> {score (state s), 0}"
    using dispatch_no_frame(2) [of _ s c] by auto
  show ?thesis
    using moved above counted kept others by (simp add: Let_def loop_obstacles)
qed

text \<open>
  An obstacle in another lane whose lower edge goes from 550 to 566.015: its flag is set
  and the score goes from 12 to 13.
\<close>

theorem scored_once_witness:
  "unscoredAbove (midRun runRender [\<lparr>lane = 0, y = 510, w = 72, h = 40, passed = False\<rparr>]) \<and>
   obstaclesRef (loop runRender 30050 0 0
     (midRun runRender [\<lparr>lane = 0, y = 510, w = 72, h = 40, passed = False\<rparr>])) =
     [\<lparr>lane = 0, y = 526.015, w = 72, h = 40, passed = True\<rparr>] \<and>
   score (state (loop runRender 30050 0 0
     (midRun runRender [\<lparr>lane = 0, y = 510, w = 72, h = 40, passed = False\<rparr>]))) = 13"
  using scored_once [of "midRun runRender [\<lparr>lane = 0, y = 510, w = 72, h = 40, passed = False\<rparr>]"
      30050 0 0 runRender]
  by (simp add: runRender_def midRun_def frame_defs unscoredAbove_def)

subsection \<open>Lane changes\<close>

lemma clamp_range:
  "mn \<le> mx \<Longrightarrow> mn \<le> clamp n mn mx \<and> clamp n mn mx \<le> mx"
  by (simp add: clamp_def)

lemma setPlayerLane_clamp:
  "laneOk (setPlayerLane (\<lambda>l. clamp (f l) 0 (LANES - 1)) s)"
  using clamp_range [of 0 "LANES - 1"]
  by (simp add: laneOk_def setPlayerLane_def LANES_def)

lemma dispatch_laneOk:
  assumes "laneOk s"
  shows "laneOk (dispatch s ce)"
proof (cases ce)
  case (Pair c e)
  show ?thesis
  proof (cases e)
    case (Frame now r1 r2)
    with Pair assms show ?thesis by (simp add: laneOk_def)
  next
    case (PointerDown x)
    have "laneOk (onPointerDown x s)"
      by (simp add: onPointerDown_def Let_def setPlayerLane_clamp)
    with Pair PointerDown show ?thesis
      by (simp add: onPointerDownDead_def laneOk_def)
  next
    case (KeyDown k)
    with Pair assms show ?thesis
      using setPlayerLane_clamp [of "\<lambda>l. l - 1" s] setPlayerLane_clamp [of "\<lambda>l. l + 1" s]
      by (simp add: onKey_def) (simp add: laneOk_def setRunning_def)
  next
    case ClickPause
    with Pair assms show ?thesis by (simp add: laneOk_def setRunning_def)
  next
    case ClickRestart
    with Pair assms show ?thesis by (simp add: laneOk_def)
  qed
qed

text \<open>
  C8. From a world whose player lane is within \<open>[0, LANES - 1]\<close> (the component is mounted
  with lane 1), every sequence of events, of any length and in any order (pointer presses
  on either half, keys, button clicks, frames), leaves the player lane within
  \<open>[0, LANES - 1]\<close>, that is \<open>[0, 2]\<close>.
\<close>

theorem lane_in_range:
  assumes "0 \<le> playerLane (state s)" and "playerLane (state s) \<le> LANES - 1"
  shows "0 \<le> playerLane (state (foldl dispatch s evs)) \<and>
         playerLane (state (foldl dispatch s evs)) \<le> LANES - 1"
proof -
  have "laneOk s \<Longrightarrow> laneOk (foldl dispatch s evs)"
    by (induction evs arbitrary: s) (simp_all add: dispatch_laneOk)
  with assms show ?thesis
    by (simp add: laneOk_def)
qed

text \<open>Three moves to the right from lane 1 end in lane 2; three to the left in lane 0.\<close>

theorem lane_in_range_witness:
  "playerLane (state (mount Map.empty)) = 1 \<and>
   playerLane (state (foldl dispatch (mount Map.empty)
     [(firstRender, KeyDown ''ArrowRight''), (firstRender, PointerDown 300),
      (firstRender, KeyDown ''D'')])) = 2 \<and>
   playerLane (state (foldl dispatch (mount Map.empty)
     [(firstRender, KeyDown ''a''), (firstRender, PointerDown 10),
      (firstRender, KeyDown ''ArrowLeft'')])) = 0"
  using lane_in_range [of "mount Map.empty"
      "[(firstRender, KeyDown ''ArrowRight''), (firstRender, PointerDown 300),
        (firstRender, KeyDown ''D'')]"]
  by (simp add: mount_def requestAnimationFrame_def Let_def onKey_def onPointerDown_def
      onPointerDownDead_def setPlayerLane_def clamp_def toLowerCase_def lowerChar_def consts_defs)

subsection \<open>The difficulty ramp\<close>

lemma frameDelta_nonneg:
  assumes "case loop_last s of None \<Rightarrow> True | Some l \<Rightarrow> l \<le> now"
  shows "0 \<le> frameDelta now s"
  using assms by (simp add: frameDelta_def Let_def split: option.splits)

lemma frame_ramp:
  assumes inv: "rampInv s" and dt: "0 \<le> frameDelta now s"
  shows "rampInv (loop c now r1 r2 s) \<and>
         elapsedRef s \<le> elapsedRef (loop c now r1 r2 s) \<and>
         speedRef s \<le> speedRef (loop c now r1 r2 s) \<and>
         spawnIntervalRef (loop c now r1 r2 s) \<le> spawnIntervalRef s"
proof (cases "simulated c s")
  case False
  with inv show ?thesis
    by (simp add: loop_ramp rampInv_def)
next
  case True
  define e where "e = elapsedRef s"
  define e' where "e' = elapsedRef s + frameDelta now s"
  define target where "target = max MIN_SPAWN (BASE_SPAWN - SPAWN_DECAY * e')"
  have grow: "e \<le> e'"
    using dt by (simp add: e_def e'_def)
  have "BASE_SPAWN - SPAWN_DECAY * e' \<le> BASE_SPAWN - SPAWN_DECAY * e"
    using grow by (simp add: SPAWN_DECAY_def)
  then have "target \<le> max MIN_SPAWN (BASE_SPAWN - SPAWN_DECAY * e)"
    by (auto simp: target_def)
  moreover from inv have "max MIN_SPAWN (BASE_SPAWN - SPAWN_DECAY * e) \<le> spawnIntervalRef s"
    unfolding rampInv_def e_def by blast
  ultimately have below: "target \<le> spawnIntervalRef s"
    by (rule order_trans)
  have si: "spawnIntervalRef (loop c now r1 r2 s) = spawnIntervalRef s * 0.98 + target * 0.02"
    using True by (simp add: loop_ramp target_def e'_def)
  have sp: "speedRef (loop c now r1 r2 s) = BASE_SPEED + SPEED_GROWTH * e'"
    and el: "elapsedRef (loop c now r1 r2 s) = e'"
    using True by (simp_all add: loop_ramp e'_def)
  have "speedRef s \<le> BASE_SPEED + SPEED_GROWTH * e'"
    using inv grow by (simp add: rampInv_def e_def SPEED_GROWTH_def)
  moreover have "spawnIntervalRef s * 0.98 + target * 0.02 \<le> spawnIntervalRef s"
    using below by simp
  moreover have "target \<le> spawnIntervalRef s * 0.98 + target * 0.02"
    using below by simp
  ultimately show ?thesis
    using grow by (simp add: rampInv_def si sp el target_def e_def)
qed

lemma frames_hd [simp]:
  "hd (frames s fs) = s"
  by (cases fs) auto

lemma frames_not_Nil [simp]:
  "frames s fs \<noteq> []"
  by (cases fs) auto

lemma stamps_step:
  assumes "sorted (stamps s ((c, now, r1, r2) # fs))"
  shows "(case loop_last s of None \<Rightarrow> True | Some l \<Rightarrow> l \<le> now) \<and>
         sorted (stamps (loop c now r1 r2 s) fs)"
  using assms by (auto simp: stamps_def loop_ramp split: option.splits)

text \<open>The invariant holds when the component is mounted and after a restart.\<close>

lemma rampInv_mount:
  "rampInv (mount ls)"
  by (simp add: rampInv_def mount_def requestAnimationFrame_def Let_def consts_defs)

lemma rampInv_restart:
  "rampInv (restart c s)"
  by (simp add: rampInv_def restart_def cancelAnimationFrame_def requestAnimationFrame_def
      Let_def consts_defs split: option.splits)

text \<open>Events other than frames keep both invariants.\<close>

lemma handlers_invariants [simp]:
  "rampInv (setPlayerLane f s) = rampInv s"
  "rampInv (setRunning g s) = rampInv s"
  "rampInv (onPointerDown x s) = rampInv s"
  "unscoredAbove (setPlayerLane f s) = unscoredAbove s"
  "unscoredAbove (setRunning g s) = unscoredAbove s"
  "unscoredAbove (onPointerDown x s) = unscoredAbove s"
  by (simp_all add: rampInv_def unscoredAbove_def setPlayerLane_def setRunning_def
      onPointerDown_def Let_def)

lemma dispatch_invariants:
  assumes "\<And>now r1 r2. e \<noteq> Frame now r1 r2"
  shows "rampInv s \<Longrightarrow> rampInv (dispatch s (c, e))"
    and "unscoredAbove s \<Longrightarrow> unscoredAbove (dispatch s (c, e))"
  using assms
  by (cases e; simp add: onPointerDownDead_def onKey_def rampInv_restart unscoredAbove_start)+

text \<open>
  C3. Take a world in which the speed is the ramp's value at the elapsed time and the
  spawn interval is not below its target (so it is when the component is mounted and
  after a restart), and any sequence of frames, run or skipped, whose time stamps do not
  go back. From each world to the next the elapsed time and the speed do not decrease and
  the spawn interval does not increase; in every world the speed is
  \<open>BASE_SPEED + SPEED_GROWTH * elapsed\<close>, a non-decreasing function of the elapsed
  time, and the spawn interval is at least \<open>MIN_SPAWN\<close>. (Numbers are ideal reals.)
\<close>

theorem ramp_monotone:
  assumes "rampInv s" and "sorted (stamps s fs)"
  shows "successively
           (\<lambda>a b. elapsedRef a \<le> elapsedRef b \<and> speedRef a \<le> speedRef b \<and>
                  spawnIntervalRef b \<le> spawnIntervalRef a) (frames s fs) \<and>
         list_all
           (\<lambda>a. speedRef a = BASE_SPEED + SPEED_GROWTH * elapsedRef a \<and>
                MIN_SPAWN \<le> spawnIntervalRef a) (frames s fs) \<and>
         mono (\<lambda>e. BASE_SPEED + SPEED_GROWTH * e)"
proof -
  have "mono (\<lambda>e. BASE_SPEED + SPEED_GROWTH * e)"
    by (rule monoI) (simp add: SPEED_GROWTH_def)
  moreover from assms have
    "successively
       (\<lambda>a b. elapsedRef a \<le> elapsedRef b \<and> speedRef a \<le> speedRef b \<and>
              spawnIntervalRef b \<le> spawnIntervalRef a) (frames s fs) \<and>
     list_all
       (\<lambda>a. speedRef a = BASE_SPEED + SPEED_GROWTH * elapsedRef a \<and>
            MIN_SPAWN \<le> spawnIntervalRef a) (frames s fs)"
  proof (induction fs arbitrary: s)
    case Nil
    then show ?case
      by (simp add: rampInv_def)
  next
    case (Cons f fs)
    obtain c now r1 r2 where f: "f = (c, now, r1, r2)"
      by (cases f) auto
    from Cons.prems(2) have dt: "0 \<le> frameDelta now s"
      and later: "sorted (stamps (loop c now r1 r2 s) fs)"
      using stamps_step [of s c now r1 r2 fs] frameDelta_nonneg [where s = s and now = now]
      by (simp_all add: f)
    note step = frame_ramp [OF Cons.prems(1) dt, of c r1 r2]
    from step later have "successively
       (\<lambda>a b. elapsedRef a \<le> elapsedRef b \<and> speedRef a \<le> speedRef b \<and>
              spawnIntervalRef b \<le> spawnIntervalRef a) (frames (loop c now r1 r2 s) fs) \<and>
     list_all
       (\<lambda>a. speedRef a = BASE_SPEED + SPEED_GROWTH * elapsedRef a \<and>
            MIN_SPAWN \<le> spawnIntervalRef a) (frames (loop c now r1 r2 s) fs)"
      by (intro Cons.IH) simp_all
    with step Cons.prems(1) show ?case
      by (simp add: f successively_Cons rampInv_def)
  qed
  ultimately show ?thesis
    by simp
qed

text \<open>Four frames after mounting, the third of them paused.\<close>

theorem ramp_monotone_witness:
  "rampInv (mount Map.empty) \<and>
   sorted (stamps (mount Map.empty) [(firstRender, 1000, 0, 0), (firstRender, 1016, 0, 0),
      (pausedRender, 1033, 0, 0), (firstRender, 1100, 0, 0)]) \<and>
   successively
     (\<lambda>a b. elapsedRef a \<le> elapsedRef b \<and> speedRef a \<le> speedRef b \<and>
            spawnIntervalRef b \<le> spawnIntervalRef a)
     (frames (mount Map.empty) [(firstRender, 1000, 0, 0), (firstRender, 1016, 0, 0),
        (pausedRender, 1033, 0, 0), (firstRender, 1100, 0, 0)])"
proof -
  have ordered: "sorted (stamps (mount Map.empty) [(firstRender, 1000, 0, 0),
      (firstRender, 1016, 0, 0), (pausedRender, 1033, 0, 0), (firstRender, 1100, 0, 0)])"
    by (simp add: stamps_def mount_def requestAnimationFrame_def Let_def)
  show ?thesis
    using ramp_monotone [OF rampInv_mount ordered] rampInv_mount ordered by blast
qed

subsection \<open>The stored best score\<close>













text \<open>No function of the mounted component reads the storage.\<close>

lemma stages_storage [simp]:
  "frameDelta now (s\<lparr>localStorage := m\<rparr>) = frameDelta now s"
  "timing now (s\<lparr>localStorage := m\<rparr>) = (timing now s)\<lparr>localStorage := m\<rparr>"
  "difficultyRamp (s\<lparr>localStorage := m\<rparr>) = (difficultyRamp s)\<lparr>localStorage := m\<rparr>"
  "spawn dt r1 r2 (s\<lparr>localStorage := m\<rparr>) = (spawn dt r1 r2 s)\<lparr>localStorage := m\<rparr>"
  "updateObstacles dt (s\<lparr>localStorage := m\<rparr>) = (updateObstacles dt s)\<lparr>localStorage := m\<rparr>"
  "removeOffscreen (s\<lparr>localStorage := m\<rparr>) = (removeOffscreen s)\<lparr>localStorage := m\<rparr>"
  "present c (s\<lparr>localStorage := m\<rparr>) = (present c s)\<lparr>localStorage := m\<rparr>"
  by (simp_all add: frameDelta_def timing_def difficultyRamp_def spawn_def spawnObstacle_def
      updateObstacles_def removeOffscreen_def present_def draw_def requestAnimationFrame_def
      Let_def case_prod_beta)






lemma handlers_storage [simp]:
  "setPlayerLane f (s\<lparr>localStorage := m\<rparr>) = (setPlayerLane f s)\<lparr>localStorage := m\<rparr>"
  "setRunning g (s\<lparr>localStorage := m\<rparr>) = (setRunning g s)\<lparr>localStorage := m\<rparr>"
  "onPointerDown x (s\<lparr>localStorage := m\<rparr>) = (onPointerDown x s)\<lparr>localStorage := m\<rparr>"
  by (simp_all add: setPlayerLane_def setRunning_def onPointerDown_def Let_def)





text \<open>
  C1. The frame that ends a run stores \<^verbatim>\<open>Math.max(best, score)\<close> of the values the
  loop's closure holds, and \<^verbatim>\<open>setScore\<close> does not change those. Thirty seconds into a
  run, with best 3 and score 12, an obstacle of the player's lane whose lower edge is at
  545 moves by 16.015 in one frame: it is scored (the score becomes 13) and it hits the
  player in the same frame, and the best stored is 12, not 13.
\<close>

theorem best_misses_final_score:
  "deadRef (loop runRender 30050 0 0
      (midRun runRender [\<lparr>lane = 1, y = 505, w = 72, h = 40, passed = False\<rparr>])) \<and>
   score (state (loop runRender 30050 0 0
      (midRun runRender [\<lparr>lane = 1, y = 505, w = 72, h = 40, passed = False\<rparr>]))) = 13 \<and>
   best (state (loop runRender 30050 0 0
      (midRun runRender [\<lparr>lane = 1, y = 505, w = 72, h = 40, passed = False\<rparr>]))) = Num 12 \<and>
   localStorage (loop runRender 30050 0 0
      (midRun runRender [\<lparr>lane = 1, y = 505, w = 72, h = 40, passed = False\<rparr>])) ''neonlane_best'' =
     Some ''12''"
  by (simp add: runRender_def midRun_def frame_defs js_String_def digits10.simps digitChar_def)

text \<open>The maximum of the best before the run and the final score is 13.\<close>

theorem best_misses_final_score_witness:
  "Math_max (Num 3) (Num (score (state (loop runRender 30050 0 0
      (midRun runRender [\<lparr>lane = 1, y = 505, w = 72, h = 40, passed = False\<rparr>]))))) = Num 13 \<and>
   best (state (loop runRender 30050 0 0
      (midRun runRender [\<lparr>lane = 1, y = 505, w = 72, h = 40, passed = False\<rparr>]))) = Num 12"
  using best_misses_final_score by (simp add: Math_max_def)

end
